theory Spec2Isabelle
  imports Main "HOL-Library.Word"
begin

section \<open>Python values\<close>

text \<open>
  The script handles values decoded from JSON: \<^verbatim>\<open>None\<close>, booleans, integers, floats,
  strings, lists and dictionaries. A string is kept as its UTF-8 bytes, so that an
  accented letter of a literal is two bytes; a float is kept as the 64 bits of its IEEE
  representation, of which only the test against zero is ever needed. A dictionary is the
  list of its entries in insertion order, with pairwise different keys.
\<close>

datatype json =
    JNull
  | JBool bool
  | JInt int
  | JFloat "64 word"
  | JStr string
  | JList "json list"
  | JObj "(string \<times> json) list"

text \<open>
  What the HTTP library hands back: the status line, the body as text, and the body
  decoded by \<^verbatim>\<open>response.json()\<close> (\<open>None\<close> when the body is not JSON).
\<close>

record response =
  status_code :: int
  resp_text :: string
  json_body :: "json option"

text \<open>
  The exceptions that the script can meet. The first four are raised by the interpreter
  on a value of the wrong shape. \<open>RequestException\<close> stands for any failure raised by
  \<^verbatim>\<open>requests.post\<close> itself (connection, timeout, too many redirects) with the response
  attached to it, if any; \<open>HTTPError\<close> is raised by \<^verbatim>\<open>raise_for_status\<close> and
  \<open>JSONDecodeError\<close> by \<^verbatim>\<open>response.json()\<close>. The last two are subclasses of
  \<^verbatim>\<open>requests.exceptions.RequestException\<close>.
\<close>

datatype exn =
    IndexError
  | KeyError
  | TypeError
  | AttributeError
  | RequestException "response option"
  | HTTPError response
  | JSONDecodeError

definition and_then :: "exn + 'a \<Rightarrow> ('a \<Rightarrow> exn + 'b) \<Rightarrow> exn + 'b" where
  "and_then m f = (case m of Inl e \<Rightarrow> Inl e | Inr v \<Rightarrow> f v)"

subsection \<open>Truth value, membership, subscript, iteration\<close>

definition py_truthy :: "json \<Rightarrow> bool" where
  "py_truthy v =
     (case v of
        JNull \<Rightarrow> False
      | JBool b \<Rightarrow> b
      | JInt n \<Rightarrow> n \<noteq> 0
      | JFloat w \<Rightarrow> w \<noteq> 0 \<and> w \<noteq> 0x8000000000000000
      | JStr s \<Rightarrow> s \<noteq> []
      | JList xs \<Rightarrow> xs \<noteq> []
      | JObj kvs \<Rightarrow> kvs \<noteq> [])"

fun is_substring :: "string \<Rightarrow> string \<Rightarrow> bool" where
  "is_substring k [] = (k = [])"
| "is_substring k (c # cs) = (take (length k) (c # cs) = k \<or> is_substring k cs)"

text \<open>
  \<^verbatim>\<open>k in v\<close> for a string \<open>k\<close>: a key of a dictionary, an element of a list, a
  substring of a string; any other value is not iterable.
\<close>

definition py_contains :: "string \<Rightarrow> json \<Rightarrow> exn + bool" where
  "py_contains k v =
     (case v of
        JObj kvs \<Rightarrow> Inr (map_of kvs k \<noteq> None)
      | JList xs \<Rightarrow> Inr (List.member xs (JStr k))
      | JStr s \<Rightarrow> Inr (is_substring k s)
      | _ \<Rightarrow> Inl TypeError)"

text \<open>
  \<^verbatim>\<open>v.get\<close>: only a dictionary has the method. \<open>dict_get\<close> is the call itself, once
  the default has been evaluated.
\<close>

definition py_method_get :: "json \<Rightarrow> exn + (string \<times> json) list" where
  "py_method_get v = (case v of JObj kvs \<Rightarrow> Inr kvs | _ \<Rightarrow> Inl AttributeError)"

definition dict_get :: "(string \<times> json) list \<Rightarrow> string \<Rightarrow> json \<Rightarrow> json" where
  "dict_get kvs k d = (case map_of kvs k of None \<Rightarrow> d | Some x \<Rightarrow> x)"

definition py_get :: "json \<Rightarrow> string \<Rightarrow> json \<Rightarrow> exn + json" where
  "py_get v k d = and_then (py_method_get v) (\<lambda>kvs. Inr (dict_get kvs k d))"

text \<open>The characters of a string: a byte and the UTF-8 continuation bytes after it.\<close>

definition is_continuation :: "char \<Rightarrow> bool" where
  "is_continuation c = (128 \<le> (of_char c :: nat) \<and> (of_char c :: nat) < 192)"

function py_chars :: "string \<Rightarrow> string list" where
  "py_chars [] = []"
| "py_chars (c # cs) =
     (c # takeWhile is_continuation cs) # py_chars (dropWhile is_continuation cs)"
  by pat_completeness auto
termination
  by (relation "measure length") (auto simp: le_imp_less_Suc length_dropWhile_le)

text \<open>
  \<^verbatim>\<open>v[0]\<close>: the first element of a list, the first character of a string. The keys of
  a decoded dictionary are strings, so \<open>0\<close> is never one of them.
\<close>

definition py_index0 :: "json \<Rightarrow> exn + json" where
  "py_index0 v =
     (case v of
        JList xs \<Rightarrow> (case xs of [] \<Rightarrow> Inl IndexError | x # _ \<Rightarrow> Inr x)
      | JStr s \<Rightarrow> (case py_chars s of [] \<Rightarrow> Inl IndexError | c # _ \<Rightarrow> Inr (JStr c))
      | JObj kvs \<Rightarrow> Inl KeyError
      | _ \<Rightarrow> Inl TypeError)"

text \<open>\<^verbatim>\<open>v[k]\<close> for a string \<open>k\<close>.\<close>

definition py_getitem :: "json \<Rightarrow> string \<Rightarrow> exn + json" where
  "py_getitem v k =
     (case v of
        JObj kvs \<Rightarrow> (case map_of kvs k of None \<Rightarrow> Inl KeyError | Some x \<Rightarrow> Inr x)
      | _ \<Rightarrow> Inl TypeError)"

text \<open>
  What a \<^verbatim>\<open>for\<close> loop visits: the elements of a list, the keys of a dictionary, the
  characters of a string.
\<close>

definition py_iter :: "json \<Rightarrow> exn + json list" where
  "py_iter v =
     (case v of
        JList xs \<Rightarrow> Inr xs
      | JObj kvs \<Rightarrow> Inr (map (\<lambda>kv. JStr (fst kv)) kvs)
      | JStr s \<Rightarrow> Inr (map JStr (py_chars s))
      | _ \<Rightarrow> Inl TypeError)"

section \<open>Result extraction\<close>

text \<open>
  The literals of \<^verbatim>\<open>extraire_resultats\<close> with an accented letter, as UTF-8.
\<close>

definition NON_SPECIFIEE :: string where
  "NON_SPECIFIEE = ''Non sp'' @ [CHR 0xC3, CHR 0xA9] @ ''cifi'' @ [CHR 0xC3, CHR 0xA9] @ ''e''"

definition NON_NUMEROTE :: string where
  "NON_NUMEROTE = ''Non num'' @ [CHR 0xC3, CHR 0xA9] @ ''rot'' @ [CHR 0xC3, CHR 0xA9]"

text \<open>
  The value of \<^verbatim>\<open>"titre"\<close>:
  \<^verbatim>\<open>resultat.get("titles", [{}])[0].get("title", "Sans titre") if "titles" in resultat else "Sans titre"\<close>.
  The test is evaluated first, then the chosen branch.
\<close>

definition item_titre :: "json \<Rightarrow> exn + json" where
  "item_titre resultat =
     and_then (py_contains ''titles'' resultat) (\<lambda>present.
       if present then
         and_then (py_get resultat ''titles'' (JList [JObj []])) (\<lambda>titles.
         and_then (py_index0 titles) (\<lambda>first.
         py_get first ''title'' (JStr ''Sans titre'')))
       else Inr (JStr ''Sans titre''))"

text \<open>
  The value of \<^verbatim>\<open>"id"\<close>:
  \<^verbatim>\<open>resultat.get("id", resultat.get("titles", [{}])[0].get("id") if "titles" in resultat else None)\<close>.
  The method is looked up, then the default is evaluated, whether or not the record has
  an \<^verbatim>\<open>"id"\<close>, and only then the call is made.
\<close>

definition item_id :: "json \<Rightarrow> exn + json" where
  "item_id resultat =
     and_then (py_method_get resultat) (\<lambda>kvs.
     and_then
       (and_then (py_contains ''titles'' resultat) (\<lambda>present.
          if present then
            and_then (py_get resultat ''titles'' (JList [JObj []])) (\<lambda>titles.
            and_then (py_index0 titles) (\<lambda>first.
            py_get first ''id'' JNull))
          else Inr JNull))
       (\<lambda>fallback. Inr (dict_get kvs ''id'' fallback)))"

text \<open>
  The value of \<^verbatim>\<open>"texte"\<close>:
  \<^verbatim>\<open>extract.get("values", [""])[0] if "values" in extract and extract["values"] else ""\<close>.
\<close>

definition extrait_texte :: "json \<Rightarrow> exn + json" where
  "extrait_texte extract =
     and_then (py_contains ''values'' extract) (\<lambda>present.
     and_then (if present then and_then (py_getitem extract ''values'') (\<lambda>v. Inr (py_truthy v))
               else Inr False) (\<lambda>filled.
       if filled then
         and_then (py_get extract ''values'' (JList [JStr []])) py_index0
       else Inr (JStr [])))"

text \<open>The dictionary appended for one extract.\<close>

definition extrait :: "json \<Rightarrow> exn + json" where
  "extrait extract =
     and_then (py_get extract ''num'' (JStr NON_NUMEROTE)) (\<lambda>article.
     and_then (extrait_texte extract) (\<lambda>texte.
     and_then (py_get extract ''id'' (JStr [])) (\<lambda>ident.
     Inr (JObj [(''article'', article), (''texte'', texte), (''id'', ident)]))))"

text \<open>
  The three loops. Each carries the list \<^verbatim>\<open>item["extraits"]\<close> (or \<^verbatim>\<open>extraits\<close>) built so
  far; an exception leaves the loops and the function.
\<close>

fun extracts_loop :: "json list \<Rightarrow> json list \<Rightarrow> exn + json list" where
  "extracts_loop [] acc = Inr acc"
| "extracts_loop (extract # rest) acc =
     and_then (extrait extract) (\<lambda>x. extracts_loop rest (acc @ [x]))"

fun sections_loop :: "json list \<Rightarrow> json list \<Rightarrow> exn + json list" where
  "sections_loop [] acc = Inr acc"
| "sections_loop (section # rest) acc =
     and_then (py_contains ''extracts'' section) (\<lambda>present.
     and_then
       (if present then
          and_then (py_getitem section ''extracts'') (\<lambda>extracts.
          and_then (py_iter extracts) (\<lambda>es. extracts_loop es acc))
        else Inr acc)
       (\<lambda>acc'. sections_loop rest acc'))"

definition item_extraits :: "json \<Rightarrow> exn + json list" where
  "item_extraits resultat =
     and_then (py_contains ''sections'' resultat) (\<lambda>present.
       if present then
         and_then (py_getitem resultat ''sections'') (\<lambda>sections.
         and_then (py_iter sections) (\<lambda>ss. sections_loop ss []))
       else Inr [])"

definition extraire_item :: "json \<Rightarrow> exn + json" where
  "extraire_item resultat =
     and_then (item_titre resultat) (\<lambda>titre.
     and_then (py_get resultat ''nature'' (JStr NON_SPECIFIEE)) (\<lambda>nature.
     and_then (py_get resultat ''date'' (JStr ''Date inconnue'')) (\<lambda>date.
     and_then (item_id resultat) (\<lambda>ident.
     and_then (item_extraits resultat) (\<lambda>extraits.
     Inr (JObj [(''titre'', titre), (''nature'', nature), (''date'', date),
                (''id'', ident), (''extraits'', JList extraits)]))))))"

fun resultats_loop :: "json list \<Rightarrow> json list \<Rightarrow> exn + json list" where
  "resultats_loop [] acc = Inr acc"
| "resultats_loop (resultat # rest) acc =
     and_then (extraire_item resultat) (\<lambda>item. resultats_loop rest (acc @ [item]))"

definition extraire_resultats :: "json \<Rightarrow> exn + json list" where
  "extraire_resultats resultats =
     (if \<not> py_truthy resultats then Inr []
      else
        and_then (py_contains ''results'' resultats) (\<lambda>present.
          if \<not> present then Inr []
          else
            and_then (py_getitem resultats ''results'') (\<lambda>results.
            and_then (py_iter results) (\<lambda>rs. resultats_loop rs []))))"

section \<open>The two HTTP calls\<close>

text \<open>
  A call of \<^verbatim>\<open>requests.post\<close> is given a URL, headers and either form fields
  (\<^verbatim>\<open>data=\<close>) or a JSON document (\<^verbatim>\<open>json=\<close>). It returns a response or raises a
  \<^verbatim>\<open>RequestException\<close>, to which a response may be attached.
\<close>

datatype content = Data "(string \<times> string option) list" | Json json

record request =
  url :: string
  headers :: "(string \<times> string) list"
  content :: content

datatype reply = Raises "response option" | Returns response

text \<open>
  The lines that the script prints, each with the values that it interpolates, and the
  trace of what a call does to the outside: requests posted and lines printed.
\<close>

datatype line =
    Erreur_authentification int string
  | Erreur_requete exn
  | Details int string

datatype event = Post request | Print line

text \<open>
  What the script finds around it: the two credentials read from the environment
  (\<^verbatim>\<open>os.getenv\<close> gives \<^verbatim>\<open>None\<close> for an unset variable), the answer of the network to each
  request, and Python's \<^verbatim>\<open>repr\<close> of numbers, lists and dictionaries.
\<close>

record world =
  client_id :: "string option"
  client_secret :: "string option"
  post :: "request \<Rightarrow> reply"
  repr :: "json \<Rightarrow> string"

definition LEGIFRANCE_BASE_URL :: string where
  "LEGIFRANCE_BASE_URL = ''https://sandbox-api.piste.gouv.fr/dila/legifrance/lf-engine-app''"

definition LEGIFRANCE_OAUTH_URL :: string where
  "LEGIFRANCE_OAUTH_URL = ''https://sandbox-oauth.piste.gouv.fr/api/oauth/token''"

text \<open>
  The methods of a response. \<^verbatim>\<open>raise_for_status\<close> raises for the client and server error
  statuses, 400 to 599, and for no other; a response is true (\<^verbatim>\<open>ok\<close>) when
  \<^verbatim>\<open>raise_for_status\<close> would not raise.
\<close>

definition raise_for_status :: "response \<Rightarrow> exn + unit" where
  "raise_for_status r =
     (if 400 \<le> status_code r \<and> status_code r < 600 then Inl (HTTPError r) else Inr ())"

definition response_ok :: "response \<Rightarrow> bool" where
  "response_ok r = (case raise_for_status r of Inl e \<Rightarrow> False | Inr u \<Rightarrow> True)"

definition response_json :: "response \<Rightarrow> exn + json" where
  "response_json r = (case json_body r of None \<Rightarrow> Inl JSONDecodeError | Some j \<Rightarrow> Inr j)"

definition is_request_exception :: "exn \<Rightarrow> bool" where
  "is_request_exception e =
     (case e of
        RequestException r \<Rightarrow> True
      | HTTPError r \<Rightarrow> True
      | JSONDecodeError \<Rightarrow> True
      | _ \<Rightarrow> False)"

definition exn_response :: "exn \<Rightarrow> response option" where
  "exn_response e = (case e of RequestException r \<Rightarrow> r | HTTPError r \<Rightarrow> Some r | _ \<Rightarrow> None)"

text \<open>\<^verbatim>\<open>str(v)\<close>, as an f-string interpolates a value.\<close>

definition py_str :: "world \<Rightarrow> json \<Rightarrow> string" where
  "py_str w v =
     (case v of
        JNull \<Rightarrow> ''None''
      | JBool b \<Rightarrow> (if b then ''True'' else ''False'')
      | JStr s \<Rightarrow> s
      | _ \<Rightarrow> repr w v)"

subsection \<open>Token acquisition\<close>

definition token_request :: "world \<Rightarrow> request" where
  "token_request w =
     \<lparr>url = LEGIFRANCE_OAUTH_URL,
      headers = [(''Content-Type'', ''application/x-www-form-urlencoded'')],
      content = Data [(''grant_type'', Some ''client_credentials''),
                      (''client_id'', client_id w),
                      (''client_secret'', client_secret w),
                      (''scope'', Some ''openid'')]\<rparr>"

text \<open>
  The result is the trace together with the value returned or the exception raised;
  \<open>Inr JNull\<close> is the return of \<^verbatim>\<open>None\<close>.
\<close>

definition obtenir_token_legifrance :: "world \<Rightarrow> event list \<times> (exn + json)" where
  "obtenir_token_legifrance w =
     (case post w (token_request w) of
        Raises r \<Rightarrow> ([Post (token_request w)], Inl (RequestException r))
      | Returns response \<Rightarrow>
          if status_code response = 200 then
            ([Post (token_request w)],
             and_then (response_json response) (\<lambda>j. py_getitem j ''access_token''))
          else
            ([Post (token_request w),
              Print (Erreur_authentification (status_code response) (resp_text response))],
             Inr JNull))"

subsection \<open>Search\<close>

record search_args =
  query :: "string option"
  type_champ :: string
  type_recherche :: string
  fond :: string
  filtres :: "json list option"
  page :: int
  page_size :: int
  tri :: string
  token :: "string option"

text \<open>The parameters' defaults.\<close>

definition default_args :: search_args where
  "default_args =
     \<lparr>query = None, type_champ = ''ALL'', type_recherche = ''EXACTE'', fond = ''LEGI_ARTICLE'',
      filtres = None, page = 1, page_size = 10, tri = ''PERTINENCE'', token = None\<rparr>"

definition opt_str :: "string option \<Rightarrow> json" where
  "opt_str a = (case a of None \<Rightarrow> JNull | Some s \<Rightarrow> JStr s)"

definition opt_list :: "json list option \<Rightarrow> json" where
  "opt_list a = (case a of None \<Rightarrow> JNull | Some xs \<Rightarrow> JList xs)"

text \<open>\<^verbatim>\<open>d[k] = v\<close>: the entry is replaced where it stands, or added last.\<close>

fun dict_set :: "(string \<times> json) list \<Rightarrow> string \<Rightarrow> json \<Rightarrow> (string \<times> json) list" where
  "dict_set [] k v = [(k, v)]"
| "dict_set ((k', v') # kvs) k v =
     (if k' = k then (k', v) # kvs else (k', v') # dict_set kvs k v)"

text \<open>
  The dictionary under \<^verbatim>\<open>"recherche"\<close>, after the two conditional additions, and the
  payload that holds it.
\<close>

definition search_recherche :: "search_args \<Rightarrow> (string \<times> json) list" where
  "search_recherche a =
     (let recherche =
            [(''pageNumber'', JInt (page a)),
             (''pageSize'', JInt (page_size a)),
             (''sort'', JStr (tri a)),
             (''typePagination'', JStr ''DEFAUT'')];
          recherche =
            (if py_truthy (opt_str (query a)) then
               dict_set
                 (dict_set recherche ''champs''
                    (JList
                       [JObj [(''typeChamp'', JStr (type_champ a)),
                              (''criteres'',
                               JList [JObj [(''typeRecherche'', JStr (type_recherche a)),
                                            (''valeur'', opt_str (query a)),
                                            (''operateur'', JStr ''ET'')]]),
                              (''operateur'', JStr ''ET'')]]))
                 ''operateur'' (JStr ''ET'')
             else recherche)
      in if py_truthy (opt_list (filtres a)) then
           dict_set recherche ''filtres'' (opt_list (filtres a))
         else recherche)"

definition search_payload :: "search_args \<Rightarrow> json" where
  "search_payload a = JObj [(''recherche'', JObj (search_recherche a)), (''fond'', JStr (fond a))]"

text \<open>
  The token that the search uses: the one given, or the one acquired when none (or an
  empty one) is given. An exception of the acquisition is not caught.
\<close>

definition search_token :: "world \<Rightarrow> search_args \<Rightarrow> event list \<times> (exn + json)" where
  "search_token w a =
     (if \<not> py_truthy (opt_str (token a)) then obtenir_token_legifrance w
      else ([], Inr (opt_str (token a))))"

definition search_request :: "world \<Rightarrow> search_args \<Rightarrow> json \<Rightarrow> request" where
  "search_request w a tok =
     \<lparr>url = LEGIFRANCE_BASE_URL @ ''/search'',
      headers = [(''Authorization'', ''Bearer '' @ py_str w tok),
                 (''Content-Type'', ''application/json''),
                 (''accept'', ''application/json'')],
      content = Json (search_payload a)\<rparr>"

text \<open>
  The handler \<^verbatim>\<open>except requests.exceptions.RequestException as e\<close>: it prints the
  exception, prints the details when the exception carries a response that is true, and
  returns \<^verbatim>\<open>None\<close>. Any other exception goes on to the caller.
\<close>

definition except_RequestException :: "exn \<Rightarrow> event list \<times> (exn + json)" where
  "except_RequestException e =
     (if is_request_exception e then
        (Print (Erreur_requete e) #
         (case exn_response e of
            None \<Rightarrow> []
          | Some r \<Rightarrow> if response_ok r then [Print (Details (status_code r) (resp_text r))] else []),
         Inr JNull)
      else ([], Inl e))"

definition recherche_legifrance :: "world \<Rightarrow> search_args \<Rightarrow> event list \<times> (exn + json)" where
  "recherche_legifrance w a =
     (case search_token w a of
        (before, Inl e) \<Rightarrow> (before, Inl e)
      | (before, Inr tok) \<Rightarrow>
          (case
             (case post w (search_request w a tok) of
                Raises r \<Rightarrow> Inl (RequestException r)
              | Returns response \<Rightarrow>
                  and_then (raise_for_status response) (\<lambda>u. response_json response))
           of
             Inl e \<Rightarrow>
               (before @ Post (search_request w a tok) # fst (except_RequestException e),
                snd (except_RequestException e))
           | Inr j \<Rightarrow> (before @ [Post (search_request w a tok)], Inr j)))"

definition posted :: "event list \<Rightarrow> request list" where
  "posted evs = concat (map (\<lambda>ev. case ev of Post r \<Rightarrow> [r] | Print l \<Rightarrow> []) evs)"

section \<open>Example surroundings\<close>

text \<open>
  A world for the examples below: both credentials are set, the token endpoint gives one
  fixed answer and every other URL another.
\<close>

definition example_world :: "reply \<Rightarrow> reply \<Rightarrow> world" where
  "example_world token_reply search_reply =
     \<lparr>client_id = Some ''id'', client_secret = Some ''secret'',
      post = (\<lambda>q. if url q = LEGIFRANCE_OAUTH_URL then token_reply else search_reply),
      repr = (\<lambda>v. ''?'')\<rparr>"

definition example_response :: "int \<Rightarrow> json option \<Rightarrow> response" where
  "example_response status body = \<lparr>status_code = status, resp_text = ''...'', json_body = body\<rparr>"

section \<open>Properties of result extraction\<close>

lemmas py_defs =
  and_then_def py_truthy_def py_contains_def py_method_get_def dict_get_def py_get_def
  py_index0_def py_getitem_def py_iter_def

lemmas extraction_defs =
  item_titre_def item_id_def extrait_texte_def extrait_def item_extraits_def
  extraire_item_def extraire_resultats_def

subsection \<open>An empty list of titles\<close>

text \<open>
  C1. No record should make \<^verbatim>\<open>extraire_resultats\<close> raise, in particular not one whose
  \<^verbatim>\<open>titles\<close> is present and empty. The function does raise there: the test
  \<^verbatim>\<open>"titles" in resultat\<close> holds, the default \<^verbatim>\<open>[{}]\<close> of \<^verbatim>\<open>get\<close> is not used since the
  key is present, and the subscript \<^verbatim>\<open>[0]\<close> of the empty list raises \<^verbatim>\<open>IndexError\<close>.
  The expression for \<^verbatim>\<open>values\<close> tests its list before the same subscript.
\<close>

theorem extraire_resultats_titles_vide:
  "extraire_resultats (JObj [(''results'', JList [JObj [(''titles'', JList [])]])])
   = Inl IndexError"
  by (simp add: py_defs extraction_defs)

text \<open>
  The script checks the type of no value that it reads, so an entry of another type
  stops the extraction as well: a section that is \<^verbatim>\<open>null\<close> fails the test
  \<^verbatim>\<open>"extracts" in section\<close> with a \<^verbatim>\<open>TypeError\<close>.
\<close>

lemma extraire_resultats_section_null:
  "extraire_resultats (JObj [(''results'', JList [JObj [(''sections'', JList [JNull])]])])
   = Inl TypeError"
  by (simp add: py_defs extraction_defs)

text \<open>
  C6. Every record should give an item in which each missing field takes its fallback on
  its own. A record with \<^verbatim>\<open>id\<close>, \<^verbatim>\<open>nature\<close> and \<^verbatim>\<open>date\<close> and an empty \<^verbatim>\<open>titles\<close> should
  give the title "Sans titre" and its own \<^verbatim>\<open>id\<close>. It gives no item: the title raises
  \<^verbatim>\<open>IndexError\<close> as above, and so would the fallback of \<^verbatim>\<open>id\<close>, which is evaluated
  before \<^verbatim>\<open>get\<close> looks for the key.
\<close>

theorem extraire_resultats_id_titles_vide:
  "extraire_resultats
     (JObj [(''results'',
             JList [JObj [(''id'', JStr ''X''), (''nature'', JStr ''LOI''),
                          (''date'', JStr ''2020-01-01''), (''titles'', JList [])]])])
   = Inl IndexError"
  by (simp add: py_defs extraction_defs)

text \<open>
  The fallback of \<^verbatim>\<open>id\<close> alone raises on this record, although the record has an
  \<^verbatim>\<open>id\<close>.
\<close>

lemma item_id_titles_vide:
  "item_id (JObj [(''id'', JStr ''X''), (''titles'', JList [])]) = Inl IndexError"
  by (simp add: py_defs item_id_def)

text \<open>
  Without \<^verbatim>\<open>titles\<close> and \<^verbatim>\<open>sections\<close> the fallbacks are taken one by one, whichever of
  \<^verbatim>\<open>nature\<close>, \<^verbatim>\<open>date\<close> and \<^verbatim>\<open>id\<close> the record holds.
\<close>

lemma extraire_item_sans_titles:
  assumes "map_of kvs ''titles'' = None" and "map_of kvs ''sections'' = None"
  shows "extraire_item (JObj kvs) =
           Inr (JObj [(''titre'', JStr ''Sans titre''),
                      (''nature'', dict_get kvs ''nature'' (JStr NON_SPECIFIEE)),
                      (''date'', dict_get kvs ''date'' (JStr ''Date inconnue'')),
                      (''id'', dict_get kvs ''id'' JNull),
                      (''extraits'', JList [])])"
  using assms
  by (simp add: extraire_item_def item_titre_def item_id_def item_extraits_def py_contains_def
      py_get_def py_method_get_def and_then_def)

text \<open>
  An extract without \<^verbatim>\<open>values\<close> gives an excerpt whose \<^verbatim>\<open>texte\<close> is the empty string.
\<close>

lemma extrait_sans_values:
  assumes "map_of kvs ''values'' = None"
  shows "extrait (JObj kvs) =
           Inr (JObj [(''article'', dict_get kvs ''num'' (JStr NON_NUMEROTE)),
                      (''texte'', JStr []),
                      (''id'', dict_get kvs ''id'' (JStr []))])"
  using assms
  by (simp add: extrait_def extrait_texte_def py_contains_def py_get_def py_method_get_def
      and_then_def)

subsection \<open>Responses without results\<close>

text \<open>
  C5. For an input that is \<^verbatim>\<open>None\<close>, or a dictionary without the key \<^verbatim>\<open>"results"\<close>,
  \<^verbatim>\<open>extraire_resultats\<close> returns the empty list.
\<close>

theorem extraire_resultats_sans_results:
  assumes "resultats = JNull \<or> (\<exists>kvs. resultats = JObj kvs \<and> map_of kvs ''results'' = None)"
  shows "extraire_resultats resultats = Inr []"
  using assms
  by (auto simp: extraire_resultats_def py_truthy_def py_contains_def and_then_def)

theorem extraire_resultats_sans_results_witness:
  "extraire_resultats JNull = Inr [] \<and>
   extraire_resultats (JObj [(''message'', JStr ''Unauthorized'')]) = Inr []"
  using extraire_resultats_sans_results [of JNull]
    extraire_resultats_sans_results [of "JObj [(''message'', JStr ''Unauthorized'')]"]
  by simp

subsection \<open>The scenario of the specification\<close>

text \<open>
  C7. The response \<^verbatim>\<open>{"results":[{"nature":"LOI","date":"2020-01-01"}]}\<close> gives exactly one
  item: title "Sans titre", nature "LOI", date "2020-01-01", id \<^verbatim>\<open>None\<close>, no excerpt.
\<close>

theorem extraire_resultats_scenario:
  "extraire_resultats
     (JObj [(''results'', JList [JObj [(''nature'', JStr ''LOI''), (''date'', JStr ''2020-01-01'')]])])
   = Inr [JObj [(''titre'', JStr ''Sans titre''), (''nature'', JStr ''LOI''),
                (''date'', JStr ''2020-01-01''), (''id'', JNull), (''extraits'', JList [])]]"
  by (simp add: py_defs extraction_defs)

section \<open>Properties of token acquisition\<close>

text \<open>
  C2. Whatever response the token endpoint gives: with status 200 and a JSON object that
  holds \<^verbatim>\<open>access_token\<close>, the function returns exactly the value of that field; with any
  other status it returns \<^verbatim>\<open>None\<close> and raises nothing.
\<close>

theorem obtenir_token_legifrance_result:
  assumes "post w (token_request w) = Returns r"
  shows "(status_code r = 200 \<longrightarrow>
            (\<forall>kvs tok. json_body r = Some (JObj kvs) \<and> map_of kvs ''access_token'' = Some tok \<longrightarrow>
               snd (obtenir_token_legifrance w) = Inr tok)) \<and>
         (status_code r \<noteq> 200 \<longrightarrow> snd (obtenir_token_legifrance w) = Inr JNull)"
  using assms
  by (simp add: obtenir_token_legifrance_def response_json_def py_getitem_def and_then_def)

theorem obtenir_token_legifrance_result_witness:
  "snd (obtenir_token_legifrance
          (example_world
             (Returns (example_response 200 (Some (JObj [(''access_token'', JStr ''abc'')]))))
             (Raises None))) = Inr (JStr ''abc'') \<and>
   snd (obtenir_token_legifrance
          (example_world (Returns (example_response 401 None)) (Raises None))) = Inr JNull"
  using
    obtenir_token_legifrance_result
      [of "example_world
             (Returns (example_response 200 (Some (JObj [(''access_token'', JStr ''abc'')]))))
             (Raises None)"
          "example_response 200 (Some (JObj [(''access_token'', JStr ''abc'')]))"]
    obtenir_token_legifrance_result
      [of "example_world (Returns (example_response 401 None)) (Raises None)"
          "example_response 401 None"]
  by (simp add: example_world_def example_response_def token_request_def)

section \<open>Properties of the search\<close>

subsection \<open>The payload\<close>

text \<open>
  C3 says that a payload built from a query string always holds the free-text block. The
  test \<^verbatim>\<open>if query:\<close> is false for the empty string, which therefore adds no block.
\<close>

theorem search_payload_empty_query_no_champs:
  "map_of (search_recherche (default_args\<lparr>query := Some ''''\<rparr>)) ''champs'' = None"
  by (simp add: search_recherche_def default_args_def opt_str_def opt_list_def py_truthy_def)

text \<open>
  C3, amended. Whatever the other parameters: without a query the dictionary under
  \<^verbatim>\<open>"recherche"\<close> has no \<^verbatim>\<open>"champs"\<close>; with a query string that is not empty, \<^verbatim>\<open>"champs"\<close>
  is a list of exactly one block, which carries the field type, the match mode and the
  query, combined with \<^verbatim>\<open>"ET"\<close>.
\<close>

theorem search_payload_query:
  "(query a = None \<longrightarrow> map_of (search_recherche a) ''champs'' = None) \<and>
   (\<forall>q. query a = Some q \<and> q \<noteq> [] \<longrightarrow>
      map_of (search_recherche a) ''champs'' =
        Some (JList
                [JObj [(''typeChamp'', JStr (type_champ a)),
                       (''criteres'',
                        JList [JObj [(''typeRecherche'', JStr (type_recherche a)),
                                     (''valeur'', JStr q),
                                     (''operateur'', JStr ''ET'')]]),
                       (''operateur'', JStr ''ET'')]]) \<and>
      map_of (search_recherche a) ''operateur'' = Some (JStr ''ET''))"
  by (simp add: search_recherche_def opt_str_def opt_list_def py_truthy_def Let_def
      split: option.splits)

theorem search_payload_query_witness:
  "map_of (search_recherche default_args) ''champs'' = None \<and>
   map_of (search_recherche
             (default_args\<lparr>query := Some ''bail'', type_champ := ''TITLE'',
                type_recherche := ''APPROXIMATIVE''\<rparr>)) ''champs'' =
     Some (JList
             [JObj [(''typeChamp'', JStr ''TITLE''),
                    (''criteres'',
                     JList [JObj [(''typeRecherche'', JStr ''APPROXIMATIVE''),
                                  (''valeur'', JStr ''bail''),
                                  (''operateur'', JStr ''ET'')]]),
                    (''operateur'', JStr ''ET'')]])"
  using search_payload_query [of default_args]
    search_payload_query
      [of "default_args\<lparr>query := Some ''bail'', type_champ := ''TITLE'',
             type_recherche := ''APPROXIMATIVE''\<rparr>"]
  by (simp add: default_args_def)

text \<open>
  C4 says that every filter list given is found unchanged in the payload. The test
  \<^verbatim>\<open>if filtres:\<close> is false for the empty list, which therefore adds no key.
\<close>

theorem search_payload_empty_filtres_no_key:
  "map_of (search_recherche (default_args\<lparr>filtres := Some []\<rparr>)) ''filtres'' = None"
  by (simp add: search_recherche_def default_args_def opt_str_def opt_list_def py_truthy_def)

text \<open>
  C4, amended. Whatever the other parameters: without filters the dictionary under
  \<^verbatim>\<open>"recherche"\<close> has no \<^verbatim>\<open>"filtres"\<close>; with a filter list that is not empty,
  \<^verbatim>\<open>"filtres"\<close> is that list, unchanged.
\<close>

theorem search_payload_filtres:
  "(filtres a = None \<longrightarrow> map_of (search_recherche a) ''filtres'' = None) \<and>
   (\<forall>fs. filtres a = Some fs \<and> fs \<noteq> [] \<longrightarrow>
      map_of (search_recherche a) ''filtres'' = Some (JList fs))"
  by (simp add: search_recherche_def opt_str_def opt_list_def py_truthy_def Let_def
      split: option.splits)

theorem search_payload_filtres_witness:
  "map_of (search_recherche default_args) ''filtres'' = None \<and>
   map_of (search_recherche
             (default_args\<lparr>filtres :=
                Some [JObj [(''facette'', JStr ''NOM_CODE''),
                            (''valeurs'', JList [JStr ''Code civil''])]]\<rparr>)) ''filtres'' =
     Some (JList [JObj [(''facette'', JStr ''NOM_CODE''),
                        (''valeurs'', JList [JStr ''Code civil''])]])"
  using search_payload_filtres [of default_args]
    search_payload_filtres
      [of "default_args\<lparr>filtres :=
                Some [JObj [(''facette'', JStr ''NOM_CODE''),
                            (''valeurs'', JList [JStr ''Code civil''])]]\<rparr>"]
  by (simp add: default_args_def)

text \<open>
  C10. With the empty string as query the payload is the one built without a query: the
  dictionary under \<^verbatim>\<open>"recherche"\<close> has neither \<^verbatim>\<open>"champs"\<close> nor \<^verbatim>\<open>"operateur"\<close>.
\<close>

theorem search_payload_empty_query:
  "search_payload (a\<lparr>query := Some ''''\<rparr>) = search_payload (a\<lparr>query := None\<rparr>) \<and>
   map_of (search_recherche (a\<lparr>query := Some ''''\<rparr>)) ''champs'' = None \<and>
   map_of (search_recherche (a\<lparr>query := Some ''''\<rparr>)) ''operateur'' = None"
  by (simp add: search_payload_def search_recherche_def opt_str_def opt_list_def py_truthy_def
      Let_def split: option.splits)

subsection \<open>The requests sent\<close>

lemma posted_simps:
  "posted [] = []"
  "posted (Post r # evs) = r # posted evs"
  "posted (Print l # evs) = posted evs"
  "posted (xs @ ys) = posted xs @ posted ys"
  by (simp_all add: posted_def)

lemma posted_obtenir_token: "posted (fst (obtenir_token_legifrance w)) = [token_request w]"
  by (simp add: obtenir_token_legifrance_def posted_simps split: reply.splits)

lemma posted_except: "posted (fst (except_RequestException e)) = []"
  by (simp add: except_RequestException_def posted_simps split: option.splits)

text \<open>
  C9. When no token is given and the acquisition returns \<^verbatim>\<open>None\<close>, the search request is
  sent all the same, after the token request, and its \<^verbatim>\<open>Authorization\<close> header is
  "Bearer None".
\<close>

theorem recherche_legifrance_sans_token:
  assumes "token a = None" and "snd (obtenir_token_legifrance w) = Inr JNull"
  shows "posted (fst (recherche_legifrance w a)) =
           [token_request w,
            \<lparr>url = LEGIFRANCE_BASE_URL @ ''/search'',
             headers = [(''Authorization'', ''Bearer None''),
                        (''Content-Type'', ''application/json''),
                        (''accept'', ''application/json'')],
             content = Json (search_payload a)\<rparr>]"
proof -
  obtain evs where tok: "obtenir_token_legifrance w = (evs, Inr JNull)"
    using assms(2) by (cases "obtenir_token_legifrance w") simp
  then have evs: "posted evs = [token_request w]"
    using posted_obtenir_token [of w] by simp
  have st: "search_token w a = (evs, Inr JNull)"
    using assms(1) tok by (simp add: search_token_def opt_str_def py_truthy_def)
  have rq: "search_request w a JNull =
      \<lparr>url = LEGIFRANCE_BASE_URL @ ''/search'',
       headers = [(''Authorization'', ''Bearer None''),
                  (''Content-Type'', ''application/json''),
                  (''accept'', ''application/json'')],
       content = Json (search_payload a)\<rparr>"
    by (simp add: search_request_def py_str_def)
  show ?thesis
    unfolding rq [symmetric]
    by (simp add: recherche_legifrance_def st posted_simps evs posted_except
        split: sum.splits reply.splits)
qed

theorem recherche_legifrance_sans_token_witness:
  "posted (fst (recherche_legifrance
                  (example_world (Returns (example_response 401 None))
                     (Returns (example_response 401 None)))
                  default_args)) =
     [token_request (example_world (Returns (example_response 401 None))
                     (Returns (example_response 401 None))),
      \<lparr>url = LEGIFRANCE_BASE_URL @ ''/search'',
       headers = [(''Authorization'', ''Bearer None''),
                  (''Content-Type'', ''application/json''),
                  (''accept'', ''application/json'')],
       content = Json (search_payload default_args)\<rparr>]"
  using recherche_legifrance_sans_token
      [of default_args "example_world (Returns (example_response 401 None))
                     (Returns (example_response 401 None))"]
  by (simp add: default_args_def obtenir_token_legifrance_def example_world_def
      example_response_def token_request_def)

subsection \<open>Failures of the search request\<close>

text \<open>
  C8 says that every network error and every status outside 200 to 299 makes the search
  return \<^verbatim>\<open>None\<close>, with no exception for the caller. Two cases differ.
  \<^verbatim>\<open>raise_for_status\<close> raises for the statuses 400 to 599 only: a response with status
  300 and a JSON body is decoded and returned like a successful one. And the token is
  acquired before the \<^verbatim>\<open>try\<close> block: when no token is given and the network is down,
  the exception of the token request reaches the caller.
\<close>

theorem recherche_legifrance_uncaught:
  "snd (recherche_legifrance
          (example_world (Raises None) (Returns (example_response 300 (Some (JList [])))))
          (default_args\<lparr>token := Some ''abc''\<rparr>)) = Inr (JList []) \<and>
   snd (recherche_legifrance (example_world (Raises None) (Raises None)) default_args)
     = Inl (RequestException None)"
  by (simp add: recherche_legifrance_def example_world_def example_response_def default_args_def
      search_token_def opt_str_def py_truthy_def search_request_def raise_for_status_def
      response_json_def and_then_def obtenir_token_legifrance_def token_request_def
      LEGIFRANCE_BASE_URL_def LEGIFRANCE_OAUTH_URL_def)

text \<open>
  C8, amended. Once the search has its token, given or acquired: a search request that
  fails, by an exception of \<^verbatim>\<open>requests.post\<close> or by a response with a status from 400
  to 599, makes the function return \<^verbatim>\<open>None\<close>, and no exception reaches the caller; a
  response with any other status and a JSON body makes it return the decoded body.
\<close>

theorem recherche_legifrance_request_failure:
  assumes "search_token w a = (before, Inr tok)"
  shows "((\<exists>x. post w (search_request w a tok) = Raises x) \<longrightarrow>
            snd (recherche_legifrance w a) = Inr JNull) \<and>
         (\<forall>r. post w (search_request w a tok) = Returns r \<longrightarrow>
            (400 \<le> status_code r \<and> status_code r < 600 \<longrightarrow>
               snd (recherche_legifrance w a) = Inr JNull) \<and>
            (\<not> (400 \<le> status_code r \<and> status_code r < 600) \<longrightarrow>
               (\<forall>j. json_body r = Some j \<longrightarrow> snd (recherche_legifrance w a) = Inr j)))"
  using assms
  by (auto simp: recherche_legifrance_def raise_for_status_def response_json_def and_then_def
      except_RequestException_def is_request_exception_def)

theorem recherche_legifrance_request_failure_witness:
  "snd (recherche_legifrance (example_world (Raises None) (Raises None))
          (default_args\<lparr>token := Some ''abc''\<rparr>)) = Inr JNull \<and>
   snd (recherche_legifrance
          (example_world
             (Returns (example_response 200 (Some (JObj [(''access_token'', JStr ''abc'')]))))
             (Returns (example_response 503 None)))
          default_args) = Inr JNull \<and>
   snd (recherche_legifrance
          (example_world (Raises None)
             (Returns (example_response 304 (Some (JObj [(''results'', JList [])])))))
          (default_args\<lparr>token := Some ''abc''\<rparr>)) = Inr (JObj [(''results'', JList [])])"
  using
    recherche_legifrance_request_failure
      [of "example_world (Raises None) (Raises None)" "default_args\<lparr>token := Some ''abc''\<rparr>"
          "[]" "JStr ''abc''"]
    recherche_legifrance_request_failure
      [of "example_world
             (Returns (example_response 200 (Some (JObj [(''access_token'', JStr ''abc'')]))))
             (Returns (example_response 503 None))"
          default_args
          "[Post (token_request
                    (example_world
                       (Returns (example_response 200
                                   (Some (JObj [(''access_token'', JStr ''abc'')]))))
                       (Returns (example_response 503 None))))]"
          "JStr ''abc''"]
    recherche_legifrance_request_failure
      [of "example_world (Raises None)
             (Returns (example_response 304 (Some (JObj [(''results'', JList [])]))))"
          "default_args\<lparr>token := Some ''abc''\<rparr>" "[]" "JStr ''abc''"]
  by (simp add: example_world_def example_response_def default_args_def search_token_def
      opt_str_def py_truthy_def search_request_def obtenir_token_legifrance_def
      token_request_def response_json_def py_getitem_def and_then_def
      LEGIFRANCE_BASE_URL_def LEGIFRANCE_OAUTH_URL_def)

end
